theory Spec2Isabelle
  imports Main "HOL-Library.Word" "HOL-Library.Monad_Syntax" "HOL-Library.Signed_Division"
begin

section \<open>Shared types\<close>

text \<open>
  Go's \<open>int64\<close> and \<open>time.Duration\<close> (an \<open>int64\<close> count of nanoseconds) are 64-bit
  words read as two's complement. The constants of package \<open>time\<close> that the code uses
  are written out.
\<close>

type_synonym int64 = "64 word"
type_synonym Duration = "64 word"

definition Nanosecond :: Duration where "Nanosecond = 1"
definition Microsecond :: Duration where "Microsecond = 1000 * Nanosecond"
definition Millisecond :: Duration where "Millisecond = 1000 * Microsecond"
definition Second :: Duration where "Second = 1000 * Millisecond"
definition Minute :: Duration where "Minute = 60 * Second"

text \<open>
  A value stored in an \<open>interface{}\<close> field of an error record: the dynamic type with
  the value. These are the four types the validation code stores.
\<close>

datatype any_value =
    Int64Value int64
  | DurationValue Duration
  | AlgorithmTypeValue string
  | FallbackStrategyValue string

section \<open>types.go: RequestContext.Key\<close>

text \<open>
  \<open>Custom\<close> is a Go map, which may be \<open>nil\<close>: \<open>None\<close> is the nil map, \<open>Some m\<close> an
  allocated one. \<open>Metadata\<close> holds \<open>interface{}\<close> values that no function here reads;
  its type is a parameter.
\<close>

record 'm RequestContext =
  IP :: string
  UserID :: string
  Endpoint :: string
  SessionID :: string
  Custom :: "(string \<rightharpoonup> string) option"
  Metadata :: 'm

text \<open>
  The \<open>switch\<close> has no fallthrough: a named case whose field is empty leaves the switch
  and reaches the final \<open>return ""\<close>, without looking at \<open>Custom\<close>.
\<close>

definition Key :: "'m RequestContext \<Rightarrow> string \<Rightarrow> string" where
  "Key rc strategy =
    (if strategy = ''ip'' then
       (if IP rc \<noteq> [] then ''ip:'' @ IP rc else [])
     else if strategy = ''user'' then
       (if UserID rc \<noteq> [] then ''user:'' @ UserID rc else [])
     else if strategy = ''endpoint'' then
       (if Endpoint rc \<noteq> [] then ''endpoint:'' @ Endpoint rc else [])
     else if strategy = ''session'' then
       (if SessionID rc \<noteq> [] then ''session:'' @ SessionID rc else [])
     else if strategy = ''global'' then ''global''
     else
       (case Custom rc of
          None \<Rightarrow> []
        | Some m \<Rightarrow>
            (case m strategy of
               Some val \<Rightarrow> strategy @ '':'' @ val
             | None \<Rightarrow> [])))"

section \<open>types.go: Options and defaultOptions\<close>

text \<open>
  \<open>storage\<close>, \<open>clock\<close> and \<open>metrics\<close> are \<open>interface{}\<close> fields and the three callbacks
  are function values; each may be \<open>nil\<close>, which is \<open>None\<close>. Go's \<open>int\<close> is modelled
  as \<open>int\<close>: the two \<open>int\<close> fields only hold literals here.
\<close>

record ('iface, 'limitcb, 'errcb) Options =
  algorithm :: string
  storage :: "'iface option"
  clock :: "'iface option"
  metrics :: "'iface option"
  onLimit :: "'limitcb option"
  onAllow :: "'limitcb option"
  fallbackStrategy :: string
  onFallback :: "'errcb option"
  maxKeys :: int
  cleanupInterval :: Duration
  burstSize :: int

text \<open>The composite literal names five fields; every other field has its zero value.\<close>

definition defaultOptions :: "('iface, 'limitcb, 'errcb) Options" where
  "defaultOptions =
    \<lparr> algorithm = ''token_bucket'',
      storage = None,
      clock = None,
      metrics = None,
      onLimit = None,
      onAllow = None,
      fallbackStrategy = ''allow_all'',
      onFallback = None,
      maxKeys = 10000,
      cleanupInterval = 5 * Minute,
      burstSize = 0 \<rparr>"

section \<open>types.go: AlgorithmType and FallbackStrategy\<close>

type_synonym AlgorithmType = string
type_synonym FallbackStrategy = string

definition TokenBucket :: AlgorithmType where "TokenBucket = ''token_bucket''"
definition SlidingWindow :: AlgorithmType where "SlidingWindow = ''sliding_window''"
definition FixedWindow :: AlgorithmType where "FixedWindow = ''fixed_window''"
definition LeakyBucket :: AlgorithmType where "LeakyBucket = ''leaky_bucket''"

definition AllowAll :: FallbackStrategy where "AllowAll = ''allow_all''"
definition DenyAll :: FallbackStrategy where "DenyAll = ''deny_all''"
definition LocalMemory :: FallbackStrategy where "LocalMemory = ''local_memory''"

text \<open>
  \<open>InvalidConfigError\<close> of errors.go, returned by pointer; the model keeps the record's
  contents. A Go \<open>error\<close> result is an option: \<open>None\<close> is \<open>nil\<close>.
\<close>

record InvalidConfigError =
  Field :: string
  Value :: any_value
  Reason :: string

definition AlgorithmType_Validate :: "AlgorithmType \<Rightarrow> InvalidConfigError option" where
  "AlgorithmType_Validate a =
    (if a = TokenBucket \<or> a = SlidingWindow \<or> a = FixedWindow \<or> a = LeakyBucket then None
     else Some \<lparr> Field = ''algorithm'',
                 Value = AlgorithmTypeValue a,
                 Reason = ''must be one of: token_bucket, sliding_window, fixed_window, leaky_bucket'' \<rparr>)"

definition FallbackStrategy_Validate :: "FallbackStrategy \<Rightarrow> InvalidConfigError option" where
  "FallbackStrategy_Validate f =
    (if f = AllowAll \<or> f = DenyAll \<or> f = LocalMemory then None
     else Some \<lparr> Field = ''fallback_strategy'',
                 Value = FallbackStrategyValue f,
                 Reason = ''must be one of: allow_all, deny_all, local_memory'' \<rparr>)"

section \<open>algorithm.go: Config, ConfigError and the package's own AlgorithmType\<close>

record Config =
  Rate :: int64
  Window :: Duration
  BurstSize :: int64
  Algorithm :: string

record ConfigError =
  cfgField :: string
  cfgValue :: any_value
  cfgReason :: string

text \<open>The three checks run in the source's order and the first failing one returns.\<close>

definition Config_Validate :: "Config \<Rightarrow> ConfigError option" where
  "Config_Validate c =
    (if sint (Rate c) \<le> 0 then
       Some \<lparr> cfgField = ''rate'', cfgValue = Int64Value (Rate c),
              cfgReason = ''must be positive'' \<rparr>
     else if sint (Window c) \<le> 0 then
       Some \<lparr> cfgField = ''window'', cfgValue = DurationValue (Window c),
              cfgReason = ''must be positive'' \<rparr>
     else if sint (BurstSize c) < 0 then
       Some \<lparr> cfgField = ''burst_size'', cfgValue = Int64Value (BurstSize c),
              cfgReason = ''cannot be negative'' \<rparr>
     else None)"

definition algorithm_AlgorithmType_Validate :: "AlgorithmType \<Rightarrow> ConfigError option" where
  "algorithm_AlgorithmType_Validate a =
    (if a = TokenBucket \<or> a = FixedWindow \<or> a = SlidingWindow \<or> a = LeakyBucket then None
     else Some \<lparr> cfgField = ''algorithm'',
                 cfgValue = AlgorithmTypeValue a,
                 cfgReason = ''must be one of: token_bucket, fixed_window, sliding_window, leaky_bucket'' \<rparr>)"

section \<open>Package time: instants, \<open>Add\<close> and \<open>Sub\<close>\<close>

text \<open>
  An instant of package \<open>time\<close> is the integer count of nanoseconds since the package's
  zero second. A \<open>time.Time\<close> holds it as an \<open>int64\<close> of seconds and a count of
  nanoseconds below one second, so the instants it can hold are those whose seconds fit
  an \<open>int64\<close>. The location and the monotonic reading of a \<open>time.Time\<close> are left out.
\<close>

type_synonym Time = int

definition representable :: "Time \<Rightarrow> bool" where
  "representable t = (- (2 ^ 63) * 1000000000 \<le> t \<and> t < 2 ^ 63 * 1000000000)"

text \<open>
  \<open>addSec\<close> of package \<open>time\<close> adds to the seconds and, when the sum leaves the range
  of \<open>int64\<close>, stops at the largest second, or at its negation, by the sign of what was
  added.
\<close>

definition addSec :: "int \<Rightarrow> int \<Rightarrow> int" where
  "addSec ext d =
    (let sum = ext + d
     in if - (2 ^ 63) \<le> sum \<and> sum \<le> 2 ^ 63 - 1 then sum
        else if d > 0 then 2 ^ 63 - 1
        else - (2 ^ 63 - 1))"

text \<open>
  \<open>Add\<close> of package \<open>time\<close> splits the duration into whole seconds and the rest, by
  Go's division, which truncates toward zero; it adds the rest to the nanoseconds, carries
  into the seconds to keep the nanoseconds below one second, and adds the seconds with
  \<open>addSec\<close>. \<open>Sub\<close> is the difference of two instants, clamped to the range of
  \<open>Duration\<close> as the package documents.
\<close>

definition Time_Add :: "Time \<Rightarrow> Duration \<Rightarrow> Time" where
  "Time_Add t d =
    (let dsec0 = sint d sdiv 1000000000;
         nsec0 = t mod 1000000000 + sint d smod 1000000000;
         dsec = (if nsec0 \<ge> 1000000000 then dsec0 + 1
                 else if nsec0 < 0 then dsec0 - 1 else dsec0);
         nsec = (if nsec0 \<ge> 1000000000 then nsec0 - 1000000000
                 else if nsec0 < 0 then nsec0 + 1000000000 else nsec0)
     in addSec (t div 1000000000) dsec * 1000000000 + nsec)"

definition Time_Sub :: "Time \<Rightarrow> Time \<Rightarrow> Duration" where
  "Time_Sub t u =
    (if t - u > 2 ^ 63 - 1 then word_of_int (2 ^ 63 - 1)
     else if t - u < - (2 ^ 63) then word_of_int (- (2 ^ 63))
     else word_of_int (t - u))"

section \<open>errors.go: sentinel errors, error records and wrapContextError\<close>

record LimitExceededError =
  leKey :: string
  leLimit :: int
  leWindow :: Duration
  leUsed :: int
  leRetryAfter :: Duration
  leResetAt :: Time

text \<open>
  Go error values. An error made by \<open>errors.New\<close> is a pointer, equal only to itself:
  the number is the pointer's identity and the string its message. The three record
  types of errors.go are used by pointer and carry an identity as well.
  \<open>context.DeadlineExceeded\<close> is a value of an empty struct type. \<open>WrapError\<close> is
  what \<open>fmt.Errorf\<close> builds for a \<open>%w\<close> verb: a message around one wrapped error.
  A Go \<open>error\<close> that may be \<open>nil\<close> is an \<open>error option\<close>.
\<close>

datatype error =
    ErrorString nat string
  | DeadlineExceededError
  | WrapError nat string error
  | LimitExceededErrorPtr nat LimitExceededError
  | InvalidConfigErrorPtr nat InvalidConfigError
  | StorageError nat string string string "error option"



definition ErrRateLimitExceeded :: error where
  "ErrRateLimitExceeded = ErrorString 1 ''rate limit exceeded''"

definition ErrInvalidConfig :: error where
  "ErrInvalidConfig = ErrorString 2 ''invalid configuration''"

definition ErrStorageUnavailable :: error where
  "ErrStorageUnavailable = ErrorString 3 ''storage backend unavailable''"

definition ErrKeyNotFound :: error where
  "ErrKeyNotFound = ErrorString 4 ''key not found''"



text \<open>
  The \<open>Is\<close> and \<open>Unwrap\<close> methods of errors.go. \<open>Is_method\<close> is \<open>False\<close> for a type
  without the method, which is how \<open>errors.Is\<close> reads a missing method; \<open>Unwrap\<close> is
  \<open>None\<close> for a type without the method and for a method that returns \<open>nil\<close>, and
  \<open>errors.Is\<close> stops in both cases.
\<close>

fun Is_method :: "error \<Rightarrow> error \<Rightarrow> bool" where
  "Is_method (LimitExceededErrorPtr p e) target = (target = ErrRateLimitExceeded)"
| "Is_method (InvalidConfigErrorPtr p e) target = (target = ErrInvalidConfig)"
| "Is_method (StorageError p backend operation k cause) target = (target = ErrStorageUnavailable)"
| "Is_method _ target = False"

fun Unwrap :: "error \<Rightarrow> error option" where
  "Unwrap (WrapError p msg e) = Some e"
| "Unwrap (LimitExceededErrorPtr p e) = Some ErrRateLimitExceeded"
| "Unwrap (InvalidConfigErrorPtr p e) = Some ErrInvalidConfig"
| "Unwrap (StorageError p backend operation k cause) = cause"
| "Unwrap _ = None"

text \<open>The number of \<open>Unwrap\<close> steps an error allows: the measure of the loop below.\<close>

fun chain_length :: "error \<Rightarrow> nat" where
  "chain_length (WrapError p msg e) = Suc (chain_length e)"
| "chain_length (LimitExceededErrorPtr p e) = 1"
| "chain_length (InvalidConfigErrorPtr p e) = 1"
| "chain_length (StorageError p backend operation k None) = 0"
| "chain_length (StorageError p backend operation k (Some e)) = Suc (chain_length e)"
| "chain_length _ = 0"

text \<open>
  The loop of the standard library's \<open>errors.Is\<close> for two non-nil errors: equal to
  the target, or accepted by the error's own \<open>Is\<close> method, or the same question for
  what \<open>Unwrap\<close> returns. Every error type here is comparable.
\<close>

function errors_is :: "error \<Rightarrow> error \<Rightarrow> bool" where
  "errors_is err target =
    (if err = target then True
     else if Is_method err target then True
     else (case Unwrap err of
             None \<Rightarrow> False
           | Some e \<Rightarrow> errors_is e target))"
  by pat_completeness auto
termination
proof (relation "measure (\<lambda>(err, target). chain_length err)")
  show "wf (measure (\<lambda>(err, target). chain_length err))"
    by simp
next
  fix err target :: error and e :: error
  assume "Unwrap err = Some e"
  then have "chain_length e < chain_length err"
    by (cases err rule: chain_length.cases)
       (auto simp: ErrRateLimitExceeded_def ErrInvalidConfig_def)
  then show "((e, target), (err, target)) \<in> measure (\<lambda>(err, target). chain_length err)"
    by simp
qed

declare errors_is.simps [simp del]

definition errors_Is :: "error option \<Rightarrow> error option \<Rightarrow> bool" where
  "errors_Is err target =
    (case (err, target) of
       (Some e, Some t) \<Rightarrow> errors_is e t
     | _ \<Rightarrow> err = target)"


section \<open>Package clock: the mock clock\<close>

text \<open>
  The mutex of a \<open>Mock\<close> as one goroutine sees it: the number of read locks held and
  whether the write lock is held. An operation that cannot return when no other
  goroutine runs (a lock that is taken, an unlock of a lock not held) is \<open>None\<close>.
\<close>

record RWMutex =
  readers :: nat
  writer :: bool

definition unlocked :: RWMutex where
  "unlocked = \<lparr> readers = 0, writer = False \<rparr>"

definition RLock :: "RWMutex \<Rightarrow> RWMutex option" where
  "RLock l = (if writer l then None else Some (l\<lparr>readers := Suc (readers l)\<rparr>))"

definition RUnlock :: "RWMutex \<Rightarrow> RWMutex option" where
  "RUnlock l = (if readers l = 0 then None else Some (l\<lparr>readers := readers l - 1\<rparr>))"

definition Lock :: "RWMutex \<Rightarrow> RWMutex option" where
  "Lock l = (if writer l \<or> readers l \<noteq> 0 then None else Some (l\<lparr>writer := True\<rparr>))"

definition Unlock :: "RWMutex \<Rightarrow> RWMutex option" where
  "Unlock l = (if writer l then Some (l\<lparr>writer := False\<rparr>) else None)"

record Mock =
  mu :: RWMutex
  now :: Time
  auto :: bool
  step :: Duration

definition NewMockAt :: "Time \<Rightarrow> Mock" where
  "NewMockAt t = \<lparr> mu = unlocked, now = t, auto = False, step = 0 \<rparr>"

text \<open>
  \<open>Now\<close> reads the time under the read lock; with auto-advance on it gives the read lock
  up, advances under the write lock and takes the read lock again for the deferred
  \<open>RUnlock\<close>. The value returned is the one read first.
\<close>

definition Mock_Now :: "Mock \<Rightarrow> (Time \<times> Mock) option" where
  "Mock_Now m = do {
     l1 \<leftarrow> RLock (mu m);
     let m1 = m\<lparr>mu := l1\<rparr>;
     let now0 = now m1;
     m2 \<leftarrow> (if auto m1 then do {
              l2 \<leftarrow> RUnlock (mu m1);
              l3 \<leftarrow> Lock l2;
              let m3 = m1\<lparr>mu := l3, now := Time_Add (now m1) (step m1)\<rparr>;
              l4 \<leftarrow> Unlock (mu m3);
              l5 \<leftarrow> RLock l4;
              Some (m3\<lparr>mu := l5\<rparr>)
            } else Some m1);
     l6 \<leftarrow> RUnlock (mu m2);
     Some (now0, m2\<lparr>mu := l6\<rparr>)
   }"

definition Mock_Set :: "Mock \<Rightarrow> Time \<Rightarrow> Mock option" where
  "Mock_Set m t = do {
     l1 \<leftarrow> Lock (mu m);
     let m1 = m\<lparr>mu := l1, now := t\<rparr>;
     l2 \<leftarrow> Unlock (mu m1);
     Some (m1\<lparr>mu := l2\<rparr>)
   }"

definition Mock_Advance :: "Mock \<Rightarrow> Duration \<Rightarrow> Mock option" where
  "Mock_Advance m d = do {
     l1 \<leftarrow> Lock (mu m);
     let m1 = m\<lparr>mu := l1, now := Time_Add (now m) d\<rparr>;
     l2 \<leftarrow> Unlock (mu m1);
     Some (m1\<lparr>mu := l2\<rparr>)
   }"

definition Mock_SetAutoAdvance :: "Mock \<Rightarrow> Duration \<Rightarrow> Mock option" where
  "Mock_SetAutoAdvance m s = do {
     l1 \<leftarrow> Lock (mu m);
     let m1 = m\<lparr>mu := l1, auto := True, step := s\<rparr>;
     l2 \<leftarrow> Unlock (mu m1);
     Some (m1\<lparr>mu := l2\<rparr>)
   }"

definition Mock_DisableAutoAdvance :: "Mock \<Rightarrow> Mock option" where
  "Mock_DisableAutoAdvance m = do {
     l1 \<leftarrow> Lock (mu m);
     let m1 = m\<lparr>mu := l1, auto := False\<rparr>;
     l2 \<leftarrow> Unlock (mu m1);
     Some (m1\<lparr>mu := l2\<rparr>)
   }"

definition Mock_Since :: "Mock \<Rightarrow> Time \<Rightarrow> (Duration \<times> Mock) option" where
  "Mock_Since m t = do {
     (n, m1) \<leftarrow> Mock_Now m;
     Some (Time_Sub n t, m1)
   }"

text \<open>\<open>k\<close> calls of \<open>Now\<close>, one after the other, with the times they return in order.\<close>

fun Now_times :: "nat \<Rightarrow> Mock \<Rightarrow> (Time list \<times> Mock) option" where
  "Now_times 0 m = Some ([], m)"
| "Now_times (Suc k) m = do {
     (t, m1) \<leftarrow> Mock_Now m;
     (ts, m2) \<leftarrow> Now_times k m1;
     Some (t # ts, m2)
   }"

section \<open>Concrete inputs\<close>

text \<open>Request contexts on which the theorems below are instantiated.\<close>

definition ctx_full :: "unit RequestContext" where
  "ctx_full =
    \<lparr> IP = ''1.2.3.4'', UserID = ''u7'', Endpoint = ''/api/search'', SessionID = ''s1'',
      Custom = Some [''tenant'' \<mapsto> ''acme''], Metadata = () \<rparr>"

definition ctx_empty :: "unit RequestContext" where
  "ctx_empty =
    \<lparr> IP = [], UserID = [], Endpoint = [], SessionID = [], Custom = None, Metadata = () \<rparr>"

text \<open>A storage error whose cause is a plain missing key.\<close>

definition redis_get_miss :: error where
  "redis_get_miss = StorageError 40 ''redis'' ''get'' ''user:123'' (Some ErrKeyNotFound)"

text \<open>A mock clock at instant 1000 with its mutex free.\<close>

definition mock0 :: Mock where
  "mock0 = NewMockAt 1000"

text \<open>A mock clock six seconds before the largest second a \<open>time.Time\<close> can hold.\<close>

definition mock_end :: Mock where
  "mock_end = NewMockAt ((2 ^ 63 - 6) * 1000000000)"

section \<open>Theorems\<close>

subsection \<open>RequestContext.Key\<close>

text \<open>
  C2. For every request context and every strategy string, \<open>Key\<close> returns the prefixed
  field for the four field strategies when the field is non-empty, the constant
  \<open>global\<close> for the strategy \<open>global\<close> whatever the context holds, the strategy name,
  a colon and the mapped value when the strategy is none of the five names and the custom
  map has an entry for it, and the empty string in every remaining case: a field strategy
  whose field is empty, or another name with a nil custom map or no entry in it.
\<close>

theorem Key_by_strategy:
  "(s = ''ip'' \<and> IP rc \<noteq> [] \<longrightarrow> Key rc s = ''ip:'' @ IP rc) \<and>
   (s = ''user'' \<and> UserID rc \<noteq> [] \<longrightarrow> Key rc s = ''user:'' @ UserID rc) \<and>
   (s = ''endpoint'' \<and> Endpoint rc \<noteq> [] \<longrightarrow> Key rc s = ''endpoint:'' @ Endpoint rc) \<and>
   (s = ''session'' \<and> SessionID rc \<noteq> [] \<longrightarrow> Key rc s = ''session:'' @ SessionID rc) \<and>
   (s = ''global'' \<longrightarrow> Key rc s = ''global'') \<and>
   (s \<notin> {''ip'', ''user'', ''endpoint'', ''session'', ''global''} \<and>
      Custom rc = Some m \<and> m s = Some v \<longrightarrow> Key rc s = s @ '':'' @ v) \<and>
   ((s = ''ip'' \<and> IP rc = []) \<or> (s = ''user'' \<and> UserID rc = []) \<or>
    (s = ''endpoint'' \<and> Endpoint rc = []) \<or> (s = ''session'' \<and> SessionID rc = []) \<or>
    (s \<notin> {''ip'', ''user'', ''endpoint'', ''session'', ''global''} \<and>
       (Custom rc = None \<or> (\<exists>m'. Custom rc = Some m' \<and> m' s = None)))
      \<longrightarrow> Key rc s = [])"
  by (auto simp: Key_def)

theorem Key_by_strategy_witness:
  "Key ctx_full ''ip'' = ''ip:1.2.3.4'' \<and>
   Key ctx_full ''user'' = ''user:u7'' \<and>
   Key ctx_full ''endpoint'' = ''endpoint:/api/search'' \<and>
   Key ctx_full ''session'' = ''session:s1'' \<and>
   Key ctx_empty ''global'' = ''global'' \<and>
   Key ctx_full ''tenant'' = ''tenant:acme'' \<and>
   Key ctx_empty ''ip'' = [] \<and>
   Key ctx_full ''region'' = [] \<and>
   Key ctx_empty ''tenant'' = []"
  using Key_by_strategy [where s = "''ip''" and rc = ctx_full]
    Key_by_strategy [where s = "''user''" and rc = ctx_full]
    Key_by_strategy [where s = "''endpoint''" and rc = ctx_full]
    Key_by_strategy [where s = "''session''" and rc = ctx_full]
    Key_by_strategy [where s = "''global''" and rc = ctx_empty]
    Key_by_strategy [where s = "''tenant''" and rc = ctx_full
      and m = "[''tenant'' \<mapsto> ''acme'']" and v = "''acme''"]
    Key_by_strategy [where s = "''ip''" and rc = ctx_empty]
    Key_by_strategy [where s = "''region''" and rc = ctx_full]
    Key_by_strategy [where s = "''tenant''" and rc = ctx_empty]
  by (simp add: ctx_full_def ctx_empty_def)

subsection \<open>Validation of the two enumerations\<close>

text \<open>
  C6. \<open>AlgorithmType.Validate\<close> returns nil exactly for the four names
  \<open>token_bucket\<close>, \<open>fixed_window\<close>, \<open>sliding_window\<close> and \<open>leaky_bucket\<close>, and for
  every other value an error record whose field is \<open>algorithm\<close> and whose value is the
  rejected name. Both declarations of the method are covered: the one of types.go, which
  returns an \<open>InvalidConfigError\<close>, and the one of package \<open>algorithm\<close>, which returns
  that package's \<open>ConfigError\<close>.
\<close>

theorem AlgorithmType_Validate_accepts_four:
  "(AlgorithmType_Validate a = None \<longleftrightarrow>
      a \<in> {''token_bucket'', ''fixed_window'', ''sliding_window'', ''leaky_bucket''}) \<and>
   (a \<notin> {''token_bucket'', ''fixed_window'', ''sliding_window'', ''leaky_bucket''} \<longrightarrow>
      (\<exists>e. AlgorithmType_Validate a = Some e \<and> Field e = ''algorithm'' \<and>
           Value e = AlgorithmTypeValue a)) \<and>
   (algorithm_AlgorithmType_Validate a = None \<longleftrightarrow>
      a \<in> {''token_bucket'', ''fixed_window'', ''sliding_window'', ''leaky_bucket''}) \<and>
   (a \<notin> {''token_bucket'', ''fixed_window'', ''sliding_window'', ''leaky_bucket''} \<longrightarrow>
      (\<exists>e. algorithm_AlgorithmType_Validate a = Some e \<and> cfgField e = ''algorithm'' \<and>
           cfgValue e = AlgorithmTypeValue a))"
  by (auto simp: AlgorithmType_Validate_def algorithm_AlgorithmType_Validate_def
      TokenBucket_def SlidingWindow_def FixedWindow_def LeakyBucket_def)

theorem AlgorithmType_Validate_accepts_four_witness:
  "AlgorithmType_Validate ''leaky_bucket'' = None \<and>
   algorithm_AlgorithmType_Validate ''leaky_bucket'' = None \<and>
   (\<exists>e. AlgorithmType_Validate ''Token_Bucket'' = Some e \<and> Field e = ''algorithm'' \<and>
        Value e = AlgorithmTypeValue ''Token_Bucket'') \<and>
   (\<exists>e. algorithm_AlgorithmType_Validate ''Token_Bucket'' = Some e \<and>
        cfgField e = ''algorithm'' \<and> cfgValue e = AlgorithmTypeValue ''Token_Bucket'')"
  using AlgorithmType_Validate_accepts_four [of "''leaky_bucket''"]
    AlgorithmType_Validate_accepts_four [of "''Token_Bucket''"]
  by simp

text \<open>
  C7. \<open>FallbackStrategy.Validate\<close> returns nil exactly for \<open>allow_all\<close>, \<open>deny_all\<close>
  and \<open>local_memory\<close>, and for every other value an \<open>InvalidConfigError\<close> whose field is
  \<open>fallback_strategy\<close> and whose value is the rejected name.
\<close>

theorem FallbackStrategy_Validate_accepts_three:
  "(FallbackStrategy_Validate f = None \<longleftrightarrow>
      f \<in> {''allow_all'', ''deny_all'', ''local_memory''}) \<and>
   (f \<notin> {''allow_all'', ''deny_all'', ''local_memory''} \<longrightarrow>
      (\<exists>e. FallbackStrategy_Validate f = Some e \<and> Field e = ''fallback_strategy'' \<and>
           Value e = FallbackStrategyValue f))"
  by (auto simp: FallbackStrategy_Validate_def AllowAll_def DenyAll_def LocalMemory_def)

theorem FallbackStrategy_Validate_accepts_three_witness:
  "FallbackStrategy_Validate ''deny_all'' = None \<and>
   (\<exists>e. FallbackStrategy_Validate [] = Some e \<and> Field e = ''fallback_strategy'' \<and>
        Value e = FallbackStrategyValue [])"
  using FallbackStrategy_Validate_accepts_three [of "''deny_all''"]
    FallbackStrategy_Validate_accepts_three [of "[]"]
  by simp

subsection \<open>The default options\<close>

text \<open>
  C9. The default options fail open: the fallback strategy is \<open>allow_all\<close>, the
  algorithm \<open>token_bucket\<close>, at most 10000 keys, a cleanup interval of five minutes
  (300000000000 nanoseconds), a burst size of 0, and no storage, clock, metrics or
  callback set.
\<close>

theorem defaultOptions_fail_open:
  "fallbackStrategy defaultOptions = AllowAll \<and>
   fallbackStrategy defaultOptions = ''allow_all'' \<and>
   algorithm defaultOptions = ''token_bucket'' \<and>
   maxKeys defaultOptions = 10000 \<and>
   cleanupInterval defaultOptions = 5 * Minute \<and>
   sint (cleanupInterval defaultOptions) = 5 * 60 * 1000000000 \<and>
   burstSize defaultOptions = 0 \<and>
   storage defaultOptions = None \<and>
   clock defaultOptions = None \<and>
   metrics defaultOptions = None \<and>
   onLimit defaultOptions = None \<and>
   onAllow defaultOptions = None \<and>
   onFallback defaultOptions = None"
  by (simp add: defaultOptions_def AllowAll_def Minute_def Second_def Millisecond_def
      Microsecond_def Nanosecond_def)

subsection \<open>Config.Validate\<close>

text \<open>
  C3, as the spec states it, fails: \<open>Config.Validate\<close> never reads the \<open>Algorithm\<close>
  field, so a configuration with valid numbers and an unknown algorithm name is accepted.
\<close>

theorem Config_Validate_unknown_algorithm_accepted:
  "\<not> (Config_Validate \<lparr> Rate = 100, Window = 60 * Second, BurstSize = 0,
                        Algorithm = ''round_robin'' \<rparr> = None
       \<longleftrightarrow>
       0 < sint (100 :: int64) \<and> 0 < sint (60 * Second) \<and> 0 \<le> sint (0 :: int64) \<and>
       ''round_robin'' \<in> {''token_bucket'', ''fixed_window'', ''sliding_window'', ''leaky_bucket''})"
  by (simp add: Config_Validate_def Second_def Millisecond_def Microsecond_def Nanosecond_def)

text \<open>
  C3, amended. \<open>Config.Validate\<close> returns nil if and only if \<open>Rate > 0\<close>, \<open>Window > 0\<close>
  and \<open>BurstSize \<ge> 0\<close>, whatever the \<open>Algorithm\<close> field holds; for a configuration that
  violates one of the three it returns a \<open>ConfigError\<close> for the first offending field in
  the order \<open>rate\<close>, \<open>window\<close>, \<open>burst_size\<close>, carrying the offending value. The
  algorithm name is checked by \<open>AlgorithmType.Validate\<close>, which \<open>Config.Validate\<close> does
  not call.
\<close>

theorem Config_Validate_numeric_fields:
  "(Config_Validate c = None \<longleftrightarrow>
      0 < sint (Rate c) \<and> 0 < sint (Window c) \<and> 0 \<le> sint (BurstSize c)) \<and>
   (sint (Rate c) \<le> 0 \<longrightarrow>
      (\<exists>e. Config_Validate c = Some e \<and> cfgField e = ''rate'' \<and>
           cfgValue e = Int64Value (Rate c))) \<and>
   (0 < sint (Rate c) \<and> sint (Window c) \<le> 0 \<longrightarrow>
      (\<exists>e. Config_Validate c = Some e \<and> cfgField e = ''window'' \<and>
           cfgValue e = DurationValue (Window c))) \<and>
   (0 < sint (Rate c) \<and> 0 < sint (Window c) \<and> sint (BurstSize c) < 0 \<longrightarrow>
      (\<exists>e. Config_Validate c = Some e \<and> cfgField e = ''burst_size'' \<and>
           cfgValue e = Int64Value (BurstSize c))) \<and>
   Config_Validate (c\<lparr>Algorithm := a\<rparr>) = Config_Validate c"
  by (auto simp: Config_Validate_def)

theorem Config_Validate_numeric_fields_witness:
  "Config_Validate \<lparr> Rate = 10, Window = 1000, BurstSize = 0, Algorithm = [] \<rparr> = None \<and>
   (\<exists>e. Config_Validate \<lparr> Rate = 0, Window = 0, BurstSize = - 1,
                           Algorithm = ''token_bucket'' \<rparr> = Some e \<and>
        cfgField e = ''rate'' \<and> cfgValue e = Int64Value 0) \<and>
   (\<exists>e. Config_Validate \<lparr> Rate = 10, Window = - 5, BurstSize = - 1,
                           Algorithm = ''token_bucket'' \<rparr> = Some e \<and>
        cfgField e = ''window'' \<and> cfgValue e = DurationValue (- 5)) \<and>
   (\<exists>e. Config_Validate \<lparr> Rate = 10, Window = 1000, BurstSize = - 1,
                           Algorithm = ''token_bucket'' \<rparr> = Some e \<and>
        cfgField e = ''burst_size'' \<and> cfgValue e = Int64Value (- 1))"
  using Config_Validate_numeric_fields
      [of "\<lparr> Rate = 10, Window = 1000, BurstSize = 0, Algorithm = [] \<rparr>"]
    Config_Validate_numeric_fields
      [of "\<lparr> Rate = 0, Window = 0, BurstSize = - 1, Algorithm = ''token_bucket'' \<rparr>"]
    Config_Validate_numeric_fields
      [of "\<lparr> Rate = 10, Window = - 5, BurstSize = - 1, Algorithm = ''token_bucket'' \<rparr>"]
    Config_Validate_numeric_fields
      [of "\<lparr> Rate = 10, Window = 1000, BurstSize = - 1, Algorithm = ''token_bucket'' \<rparr>"]
  by simp

subsection \<open>errors.Is on the errors of errors.go\<close>

text \<open>
  C8. Every \<open>StorageError\<close>, whatever its backend, operation, key and cause (a missing
  key included), matches \<open>ErrStorageUnavailable\<close> under \<open>errors.Is\<close>: its \<open>Is\<close>
  method looks at the target only and compares it with that one sentinel.
\<close>

theorem StorageError_Is_ErrStorageUnavailable:
  "errors_Is (Some (StorageError p backend operation k cause)) (Some ErrStorageUnavailable) \<and>
   Is_method (StorageError p backend operation k cause) target
     = (target = ErrStorageUnavailable)"
  by (simp add: errors_Is_def errors_is.simps ErrStorageUnavailable_def)

theorem StorageError_Is_ErrStorageUnavailable_witness:
  "errors_Is (Some redis_get_miss) (Some ErrStorageUnavailable) \<and>
   \<not> Is_method redis_get_miss ErrKeyNotFound"
  using StorageError_Is_ErrStorageUnavailable
    [of 40 "''redis''" "''get''" "''user:123''" "Some ErrKeyNotFound" ErrKeyNotFound]
  by (simp add: redis_get_miss_def ErrKeyNotFound_def ErrStorageUnavailable_def)

subsection \<open>wrapContextError\<close>






subsection \<open>The mock clock under sequential use\<close>

text \<open>
  Within the range of \<open>time.Time\<close>, \<open>Add\<close> is exact: the carry keeps the nanoseconds
  below one second and the seconds do not leave the range of \<open>int64\<close>.
\<close>

lemma carry_exact:
  fixes b :: int
  assumes b: "0 < b"
  shows "(t div b + (if t mod b + a smod b \<ge> b then a sdiv b + 1
                     else if t mod b + a smod b < 0 then a sdiv b - 1 else a sdiv b)) * b
         + (if t mod b + a smod b \<ge> b then t mod b + a smod b - b
            else if t mod b + a smod b < 0 then t mod b + a smod b + b
            else t mod b + a smod b) = t + a"
proof -
  have a: "a = a sdiv b * b + a smod b"
    by (simp add: sdiv_mult_smod_eq)
  have t: "t = t div b * b + t mod b"
    by simp
  show ?thesis
    by (subst (5) a, subst (7) t) (simp add: algebra_simps)
qed


lemma carry_range:
  fixes b :: int
  assumes b: "0 < b"
  shows "0 \<le> (if t mod b + a smod b \<ge> b then t mod b + a smod b - b
            else if t mod b + a smod b < 0 then t mod b + a smod b + b
            else t mod b + a smod b) \<and>
         (if t mod b + a smod b \<ge> b then t mod b + a smod b - b
            else if t mod b + a smod b < 0 then t mod b + a smod b + b
            else t mod b + a smod b) < b"
proof -
  have "a smod b \<in> {- \<bar>b\<bar> + 1..\<bar>b\<bar> - 1}"
    using b by (intro smod_int_range) simp
  then have r: "- b < a smod b" "a smod b < b"
    using b by simp_all
  have m: "0 \<le> t mod b" "t mod b < b"
    using b by simp_all
  define x where "x = t mod b"
  define y where "y = a smod b"
  have "0 \<le> (if x + y \<ge> b then x + y - b else if x + y < 0 then x + y + b else x + y) \<and>
        (if x + y \<ge> b then x + y - b else if x + y < 0 then x + y + b else x + y) < b"
    using r m unfolding x_def [symmetric] y_def [symmetric] by (simp only: split: if_splits) arith
  then show ?thesis
    unfolding x_def y_def .
qed

lemma div_of_split:
  fixes b :: int
  assumes "0 < b" "0 \<le> r" "r < b"
  shows "(q * b + r) div b = q"
  using assms by simp

lemma representable_div:
  "representable x \<Longrightarrow> - (2 ^ 63) \<le> x div 1000000000 \<and> x div 1000000000 \<le> 2 ^ 63 - 1"
  unfolding representable_def by (simp add: pos_imp_zdiv_nonneg_iff) arith

lemma Time_Add_exact:
  assumes "representable (t + sint d)"
  shows "Time_Add t d = t + sint d"
proof -
  let ?b = "1000000000 :: int"
  let ?a = "sint d"
  let ?n0 = "t mod ?b + ?a smod ?b"
  let ?dsec = "if ?n0 \<ge> ?b then ?a sdiv ?b + 1 else if ?n0 < 0 then ?a sdiv ?b - 1 else ?a sdiv ?b"
  let ?nsec = "if ?n0 \<ge> ?b then ?n0 - ?b else if ?n0 < 0 then ?n0 + ?b else ?n0"
  have eq: "(t div ?b + ?dsec) * ?b + ?nsec = t + ?a"
    by (rule carry_exact) simp
  have rng: "0 \<le> ?nsec \<and> ?nsec < ?b"
    by (rule carry_range) simp
  have "(t + ?a) div ?b = ((t div ?b + ?dsec) * ?b + ?nsec) div ?b"
    by (simp only: eq)
  also have "\<dots> = t div ?b + ?dsec"
    using rng by (intro div_of_split) simp_all
  finally have sum: "t div ?b + ?dsec = (t + ?a) div ?b"
    by simp
  have "- (2 ^ 63) \<le> t div ?b + ?dsec \<and> t div ?b + ?dsec \<le> 2 ^ 63 - 1"
    unfolding sum using assms by (rule representable_div)
  then have "addSec (t div ?b) ?dsec = t div ?b + ?dsec"
    by (simp add: addSec_def Let_def)
  then have "Time_Add t d = (t div ?b + ?dsec) * ?b + ?nsec"
    unfolding Time_Add_def Let_def by simp
  then show ?thesis
    using eq by simp
qed


lemma representable_between:
  assumes t0: "representable t0" and tk: "representable (t0 + int k * a)" and ik: "i \<le> k"
  shows "representable (t0 + int i * a)"
proof (cases "0 \<le> a")
  case True
  then have "0 \<le> int i * a" "int i * a \<le> int k * a"
    using ik by (simp_all add: mult_right_mono)
  then show ?thesis
    using t0 tk unfolding representable_def by simp
next
  case False
  then have "int i * a \<le> 0" "int k * a \<le> int i * a"
    using ik by (simp_all add: mult_le_0_iff mult_right_mono_neg)
  then show ?thesis
    using t0 tk unfolding representable_def by simp
qed

lemma funpow_Time_Add_exact:
  assumes t0: "representable t0" and tk: "representable (t0 + int k * sint s)"
  shows "i \<le> k \<Longrightarrow> ((\<lambda>x. Time_Add x s) ^^ i) t0 = t0 + int i * sint s"
proof (induction i)
  case 0
  then show ?case by simp
next
  case (Suc i)
  then have ih: "((\<lambda>x. Time_Add x s) ^^ i) t0 = t0 + int i * sint s"
    by simp
  have "representable (t0 + int (Suc i) * sint s)"
    using t0 tk Suc.prems by (rule representable_between)
  then have "representable (t0 + int i * sint s + sint s)"
    by (simp add: algebra_simps)
  then have "Time_Add (t0 + int i * sint s) s = t0 + int i * sint s + sint s"
    by (rule Time_Add_exact)
  then show ?case
    using ih by (simp add: algebra_simps)
qed

lemma Mock_Now_unlocked:
  "mu m = unlocked \<Longrightarrow>
   Mock_Now m = Some (now m, if auto m then m\<lparr>now := Time_Add (now m) (step m)\<rparr> else m)"
  by (cases m)
     (simp add: Mock_Now_def unlocked_def RLock_def RUnlock_def Lock_def Unlock_def)

lemma Mock_Set_unlocked: "mu m = unlocked \<Longrightarrow> Mock_Set m t = Some (m\<lparr>now := t\<rparr>)"
  by (cases m) (simp add: Mock_Set_def unlocked_def Lock_def Unlock_def)

lemma Mock_Advance_unlocked:
  "mu m = unlocked \<Longrightarrow> Mock_Advance m d = Some (m\<lparr>now := Time_Add (now m) d\<rparr>)"
  by (cases m) (simp add: Mock_Advance_def unlocked_def Lock_def Unlock_def)

lemma Mock_SetAutoAdvance_unlocked:
  "mu m = unlocked \<Longrightarrow> Mock_SetAutoAdvance m s = Some (m\<lparr>auto := True, step := s\<rparr>)"
  by (cases m) (simp add: Mock_SetAutoAdvance_def unlocked_def Lock_def Unlock_def)

lemma funpow_Time_Add_swap:
  "Time_Add (((\<lambda>x. Time_Add x s) ^^ n) t) s = ((\<lambda>x. Time_Add x s) ^^ n) (Time_Add t s)"
  using funpow_swap1 [of "\<lambda>x. Time_Add x s" n t] by simp

lemma Now_times_auto:
  "mu m = unlocked \<Longrightarrow> auto m \<Longrightarrow>
   Now_times k m =
     Some (map (\<lambda>i. ((\<lambda>x. Time_Add x (step m)) ^^ i) (now m)) [0..<k],
           m\<lparr>now := ((\<lambda>x. Time_Add x (step m)) ^^ k) (now m)\<rparr>)"
proof (induction k arbitrary: m)
  case 0
  then show ?case by simp
next
  case (Suc k)
  let ?f = "\<lambda>x. Time_Add x (step m)"
  let ?m1 = "m\<lparr>now := ?f (now m)\<rparr>"
  have first: "Mock_Now m = Some (now m, ?m1)"
    using Suc.prems by (simp add: Mock_Now_unlocked)
  have rest: "Now_times k ?m1 =
      Some (map (\<lambda>i. ((\<lambda>x. Time_Add x (step ?m1)) ^^ i) (now ?m1)) [0..<k],
            ?m1\<lparr>now := ((\<lambda>x. Time_Add x (step ?m1)) ^^ k) (now ?m1)\<rparr>)"
    using Suc.prems by (intro Suc.IH) simp_all
  have shift: "map (\<lambda>i. (?f ^^ i) (now m)) [0..<Suc k] =
      now m # map (\<lambda>i. (?f ^^ i) (?f (now m))) [0..<k]"
    by (simp add: upt_conv_Cons map_Suc_upt [symmetric] funpow_Time_Add_swap del: upt_Suc)
  show ?case
    unfolding Now_times.simps first using rest shift
    by (simp add: funpow_Time_Add_swap del: upt_Suc)
qed

lemma Time_Sub_exact:
  "- (2 ^ 63) \<le> t - u \<Longrightarrow> t - u < 2 ^ 63 \<Longrightarrow> sint (Time_Sub t u) = t - u"
proof -
  assume lo: "- (2 ^ 63) \<le> t - u" and hi: "t - u < 2 ^ 63"
  have len: "LENGTH(64) - 1 = (63::nat)"
    by simp
  have "sint (word_of_int (t - u) :: 64 word) = signed_take_bit 63 (t - u)"
    by (simp only: sint_sbintrunc' len)
  also have "\<dots> = t - u"
    using lo hi by (intro signed_take_bit_int_eq_self) simp_all
  finally have exact: "sint (word_of_int (t - u) :: 64 word) = t - u" .
  have "Time_Sub t u = word_of_int (t - u)"
    using lo hi unfolding Time_Sub_def by (simp del: of_int_diff)
  then show ?thesis
    using exact by (simp only:)
qed

text \<open>
  C10, as the spec states it, fails at the end of the range of \<open>time.Time\<close>: a mock
  clock six seconds before the largest second, advanced by ten seconds, stops at the
  largest second, so the next \<open>Now\<close> returns the previous time plus five seconds, not
  plus ten.
\<close>

theorem Mock_Advance_saturates:
  "mu mock_end = unlocked \<and>
   representable (now mock_end) \<and>
   sint (10 * Second) = 10000000000 \<and>
   Mock_Advance mock_end (10 * Second)
     = Some (mock_end\<lparr>now := now mock_end + 5000000000\<rparr>) \<and>
   Mock_Now (mock_end\<lparr>now := now mock_end + 5000000000\<rparr>)
     = Some (now mock_end + 5000000000, mock_end\<lparr>now := now mock_end + 5000000000\<rparr>) \<and>
   now mock_end + 5000000000 \<noteq> now mock_end + sint (10 * Second)"
  by (simp add: mock_end_def NewMockAt_def Mock_Advance_def Mock_Now_def unlocked_def
      RLock_def RUnlock_def Lock_def Unlock_def representable_def Time_Add_def addSec_def
      Second_def Millisecond_def Microsecond_def Nanosecond_def Let_def)

text \<open>
  C10, amended. A mock clock whose mutex is free, used by one goroutine: after \<open>Set t\<close>,
  \<open>Now\<close> returns \<open>t\<close>; after \<open>Advance d\<close>, \<open>Now\<close> returns the clock's time moved by
  \<open>Add d\<close>, which is that time plus \<open>d\<close> whenever the sum is within the range of
  \<open>time.Time\<close>; after \<open>SetAutoAdvance s\<close>, \<open>k\<close> calls of \<open>Now\<close> in a row return the
  clock's time moved by \<open>Add s\<close> zero to \<open>k - 1\<close> times and leave the clock moved \<open>k\<close>
  times, which are the clock's time, that time plus \<open>s\<close>, and so on up to that time plus
  \<open>(k - 1) * s\<close>, and a clock \<open>k * s\<close> later, whenever the clock's time and that time
  plus \<open>k * s\<close> are within the range; with auto-advance on, one \<open>Now\<close> returns the time
  before the advance and moves the clock by \<open>Add\<close> of the step; and \<open>Since u\<close> is
  \<open>Now\<close> followed by \<open>Sub u\<close>, which is the exact difference whenever that fits a
  \<open>Duration\<close>.
\<close>

theorem Mock_sequential_deterministic:
  assumes free: "mu m = unlocked"
  shows
    "(\<exists>m1 m2. Mock_Set m t = Some m1 \<and> Mock_Now m1 = Some (t, m2)) \<and>
     (\<exists>m1 m2. Mock_Advance m d = Some m1 \<and> Mock_Now m1 = Some (Time_Add (now m) d, m2)) \<and>
     (representable (now m + sint d) \<longrightarrow>
        (\<exists>m1 m2. Mock_Advance m d = Some m1 \<and> Mock_Now m1 = Some (now m + sint d, m2))) \<and>
     (\<exists>m1 m2. Mock_SetAutoAdvance m s = Some m1 \<and>
        Now_times k m1 = Some (map (\<lambda>i. ((\<lambda>x. Time_Add x s) ^^ i) (now m)) [0..<k], m2) \<and>
        now m2 = ((\<lambda>x. Time_Add x s) ^^ k) (now m)) \<and>
     (representable (now m) \<and> representable (now m + int k * sint s) \<longrightarrow>
        (\<exists>m1 m2. Mock_SetAutoAdvance m s = Some m1 \<and>
           Now_times k m1 = Some (map (\<lambda>i. now m + int i * sint s) [0..<k], m2) \<and>
           now m2 = now m + int k * sint s)) \<and>
     (auto m \<longrightarrow>
        (\<exists>m2. Mock_Now m = Some (now m, m2) \<and> now m2 = Time_Add (now m) (step m) \<and>
           mu m2 = unlocked)) \<and>
     (auto m \<and> representable (now m + sint (step m)) \<longrightarrow>
        (\<exists>m2. Mock_Now m = Some (now m, m2) \<and> now m2 = now m + sint (step m))) \<and>
     (\<exists>m2. Mock_Now m = Some (now m, m2) \<and>
        Mock_Since m u = Some (Time_Sub (now m) u, m2)) \<and>
     (- (2 ^ 63) \<le> now m - u \<and> now m - u < 2 ^ 63 \<longrightarrow>
        sint (Time_Sub (now m) u) = now m - u)"
proof (intro conjI impI)
  show "\<exists>m1 m2. Mock_Set m t = Some m1 \<and> Mock_Now m1 = Some (t, m2)"
    using free by (simp add: Mock_Set_unlocked Mock_Now_unlocked)
  show "\<exists>m1 m2. Mock_Advance m d = Some m1 \<and> Mock_Now m1 = Some (Time_Add (now m) d, m2)"
    using free by (simp add: Mock_Advance_unlocked Mock_Now_unlocked)
  show "\<exists>m1 m2. Mock_SetAutoAdvance m s = Some m1 \<and>
        Now_times k m1 = Some (map (\<lambda>i. ((\<lambda>x. Time_Add x s) ^^ i) (now m)) [0..<k], m2) \<and>
        now m2 = ((\<lambda>x. Time_Add x s) ^^ k) (now m)"
    using free by (simp add: Mock_SetAutoAdvance_unlocked Now_times_auto)
  show "\<exists>m2. Mock_Now m = Some (now m, m2) \<and>
        Mock_Since m u = Some (Time_Sub (now m) u, m2)"
    using free by (simp add: Mock_Since_def Mock_Now_unlocked)
next
  assume "representable (now m + sint d)"
  then have "Time_Add (now m) d = now m + sint d"
    by (rule Time_Add_exact)
  then show "\<exists>m1 m2. Mock_Advance m d = Some m1 \<and> Mock_Now m1 = Some (now m + sint d, m2)"
    using free by (simp add: Mock_Advance_unlocked Mock_Now_unlocked)
next
  assume r: "representable (now m) \<and> representable (now m + int k * sint s)"
  have each: "((\<lambda>x. Time_Add x s) ^^ i) (now m) = now m + int i * sint s" if "i \<le> k" for i
    using r that by (intro funpow_Time_Add_exact) simp_all
  have list: "map (\<lambda>i. ((\<lambda>x. Time_Add x s) ^^ i) (now m)) [0..<k] =
      map (\<lambda>i. now m + int i * sint s) [0..<k]"
    by (rule map_cong) (simp_all add: each)
  show "\<exists>m1 m2. Mock_SetAutoAdvance m s = Some m1 \<and>
           Now_times k m1 = Some (map (\<lambda>i. now m + int i * sint s) [0..<k], m2) \<and>
           now m2 = now m + int k * sint s"
    using free list each [of k]
    by (simp add: Mock_SetAutoAdvance_unlocked Now_times_auto)
next
  assume "auto m"
  then show "\<exists>m2. Mock_Now m = Some (now m, m2) \<and> now m2 = Time_Add (now m) (step m) \<and>
           mu m2 = unlocked"
    using free by (simp add: Mock_Now_unlocked)
next
  assume a: "auto m \<and> representable (now m + sint (step m))"
  then have "Time_Add (now m) (step m) = now m + sint (step m)"
    by (intro Time_Add_exact) simp
  then show "\<exists>m2. Mock_Now m = Some (now m, m2) \<and> now m2 = now m + sint (step m)"
    using free a by (simp add: Mock_Now_unlocked)
next
  assume "- (2 ^ 63) \<le> now m - u \<and> now m - u < 2 ^ 63"
  then show "sint (Time_Sub (now m) u) = now m - u"
    by (simp add: Time_Sub_exact)
qed

theorem Mock_sequential_deterministic_witness:
  "(\<exists>m1 m2. Mock_Set mock0 5 = Some m1 \<and> Mock_Now m1 = Some (5, m2)) \<and>
   (\<exists>m1 m2. Mock_Advance mock0 7 = Some m1 \<and> Mock_Now m1 = Some (1007, m2)) \<and>
   (\<exists>m1 m2. Mock_SetAutoAdvance mock0 3 = Some m1 \<and>
      Now_times 4 m1 = Some ([1000, 1003, 1006, 1009], m2) \<and> now m2 = 1012) \<and>
   (\<exists>m2. Mock_Now (mock0\<lparr>auto := True, step := 3\<rparr>) = Some (1000, m2) \<and>
      now m2 = 1003) \<and>
   (\<exists>m2. Mock_Now mock0 = Some (1000, m2) \<and> Mock_Since mock0 400 = Some (600, m2)) \<and>
   sint (Time_Sub (now mock0) 400) = 600"
proof -
  have free: "mu mock0 = unlocked" "mu (mock0\<lparr>auto := True, step := 3\<rparr>) = unlocked"
    by (simp_all add: mock0_def NewMockAt_def)
  have rep: "representable (now mock0)" "representable (now mock0 + sint (7 :: Duration))"
    "representable (now mock0 + int 4 * sint (3 :: Duration))"
    "representable (now (mock0\<lparr>auto := True, step := 3\<rparr>)
       + sint (step (mock0\<lparr>auto := True, step := 3\<rparr>)))"
    by (simp_all add: mock0_def NewMockAt_def representable_def)
  have lst: "map (\<lambda>i. now mock0 + int i * sint (3 :: Duration)) [0..<4]
      = [1000, 1003, 1006, 1009]"
    by (simp add: mock0_def NewMockAt_def upt_rec)
  from Mock_sequential_deterministic [OF free(1), of 5 7 3 4 400] rep lst
  have a: "(\<exists>m1 m2. Mock_Set mock0 5 = Some m1 \<and> Mock_Now m1 = Some (5, m2))"
    and b: "(\<exists>m1 m2. Mock_Advance mock0 7 = Some m1 \<and> Mock_Now m1 = Some (1007, m2))"
    and c: "(\<exists>m1 m2. Mock_SetAutoAdvance mock0 3 = Some m1 \<and>
      Now_times 4 m1 = Some ([1000, 1003, 1006, 1009], m2) \<and> now m2 = 1012)"
    and e: "(\<exists>m2. Mock_Now mock0 = Some (1000, m2) \<and> Mock_Since mock0 400 = Some (600, m2))"
    and f: "sint (Time_Sub (now mock0) 400) = 600"
    by (simp_all add: mock0_def NewMockAt_def Time_Sub_def)
  from Mock_sequential_deterministic [OF free(2), of 5 7 3 4 400] rep
  have d: "(\<exists>m2. Mock_Now (mock0\<lparr>auto := True, step := 3\<rparr>) = Some (1000, m2) \<and>
      now m2 = 1003)"
    by (simp add: mock0_def NewMockAt_def)
  show ?thesis
    using a b c d e f by simp
qed

end
